theory Spec2Isabelle
  imports Main
begin

section \<open>Data model\<close>

text \<open>
  The store is the MongoDB database behind the Mongoose models: one list per collection,
  in insertion order. An ObjectId is a natural number. A JavaScript \<open>Date\<close> is its time
  value, the milliseconds since the epoch, as an integer. \<open>req.user\<close> is the user the
  \<open>auth\<close> middleware attached to the request.
\<close>

type_synonym oid = nat
type_synonym date = int

datatype role = Patient | Doctor | Admin

record user =
  u_id :: oid
  u_role :: role
  isActive :: bool

text \<open>models/Appointment.js: \<open>appointmentSchema\<close>. The status is the schema's string.\<close>

record appointment =
  a_id :: oid
  a_patient :: oid
  a_doctor :: oid
  a_date :: date
  a_time :: string
  a_type :: string
  a_status :: string
  a_notes :: "string option"
  a_symptoms :: "string option"
  a_diagnosis :: "string option"
  a_treatment :: "string option"

text \<open>models/Alert.js: \<open>alertSchema\<close>.\<close>

record alert =
  al_id :: oid
  al_user :: oid
  al_type :: string
  al_title :: string
  al_message :: string
  al_priority :: string
  isRead :: bool
  readAt :: "date option"
  scheduledFor :: "date option"
  expiresAt :: "date option"
  relatedModel :: "string option"
  relatedId :: "oid option"

text \<open>models/Prescription.js: \<open>prescriptionSchema\<close> (the medication rows are kept opaque).\<close>

record prescription =
  p_id :: oid
  p_patient :: oid
  p_doctor :: oid
  p_appointment :: "oid option"
  p_medications :: "string list"
  p_diagnosis :: "string option"
  p_notes :: "string option"
  p_status :: string
  refillsAllowed :: int
  refillsUsed :: int
  expiryDate :: "date option"
  isUrgent :: bool

text \<open>models/HealthRecord.js: the fields the access check of the read route looks at.\<close>

record health_record =
  r_id :: oid
  r_patient :: oid
  r_doctor :: "oid option"
  r_title :: string

record db =
  users :: "user list"
  appointments :: "appointment list"
  alerts :: "alert list"
  prescriptions :: "prescription list"
  healthRecords :: "health_record list"

text \<open>The uniform response envelope: HTTP status, \<open>success\<close>, \<open>message\<close>, \<open>data\<close>.\<close>

datatype 'a response =
  Response (status_code: nat) (success: bool) (message: "string option") (data: "'a option")

text \<open>A new document gets an ObjectId no document of its collection has.\<close>

definition fresh_oid :: "oid list \<Rightarrow> oid" where
  "fresh_oid ids = Suc (fold max ids 0)"

section \<open>JavaScript strings and dates\<close>

fun startsWith :: "string \<Rightarrow> string \<Rightarrow> bool" where
  "startsWith s [] = True"
| "startsWith [] (d # ds) = False"
| "startsWith (c # cs) (d # ds) = (c = d \<and> startsWith cs ds)"

text \<open>\<open>String.prototype.includes\<close>.\<close>

fun str_includes :: "string \<Rightarrow> string \<Rightarrow> bool" where
  "str_includes [] sub = (sub = [])"
| "str_includes (c # cs) sub = (startsWith (c # cs) sub \<or> str_includes cs sub)"

definition charBetween :: "nat \<Rightarrow> nat \<Rightarrow> char \<Rightarrow> bool" where
  "charBetween lo hi c = (lo \<le> of_char c \<and> of_char c \<le> hi)"

definition isDigit :: "char \<Rightarrow> bool" where
  "isDigit c = charBetween 48 57 c"

definition digitValue :: "char \<Rightarrow> int" where
  "digitValue c = int (of_char c) - 48"

text \<open>
  The pattern \<^verbatim>\<open>/^([0-1]?[0-9]|2[0-3]):[0-5][0-9]$/\<close> of the schema and of the request
  validators: one or two hour characters, a colon, two minute characters.
\<close>

fun time_regex :: "string \<Rightarrow> bool" where
  "time_regex [h, c, m1, m2] =
     (isDigit h \<and> c = CHR '':'' \<and> charBetween 48 53 m1 \<and> isDigit m2)"
| "time_regex [h1, h2, c, m1, m2] =
     (((charBetween 48 49 h1 \<and> isDigit h2) \<or> (h1 = CHR ''2'' \<and> charBetween 48 51 h2))
      \<and> c = CHR '':'' \<and> charBetween 48 53 m1 \<and> isDigit m2)"
| "time_regex s = False"

text \<open>\<open>String.prototype.split\<close> with a one-character separator.\<close>

fun str_split :: "char \<Rightarrow> string \<Rightarrow> string list" where
  "str_split sep [] = [[]]"
| "str_split sep (c # cs) =
     (if c = sep then [] # str_split sep cs
      else (case str_split sep cs of w # ws \<Rightarrow> (c # w) # ws | [] \<Rightarrow> [[c]]))"

text \<open>
  \<open>parseInt\<close> on the strings the time pattern lets through: the leading decimal digits,
  and \<open>NaN\<close> (here \<open>None\<close>) when there is none.
\<close>

definition parseInt :: "string \<Rightarrow> int option" where
  "parseInt s =
     (let ds = takeWhile isDigit s
      in if ds = [] then None else Some (foldl (\<lambda>n c. 10 * n + digitValue c) 0 ds))"

definition msPerDay :: int where "msPerDay = 86400000"
definition msPerHour :: int where "msPerHour = 3600000"
definition msPerMinute :: int where "msPerMinute = 60000"

text \<open>
  Local time is the time value shifted by the server's offset from UTC, \<open>tza\<close>, in
  milliseconds (ECMAScript's LocalTZA, taken as constant over the dates involved).
\<close>

definition LocalTime :: "int \<Rightarrow> date \<Rightarrow> int" where
  "LocalTime tza t = t + tza"

definition UTC :: "int \<Rightarrow> int \<Rightarrow> date" where
  "UTC tza t = t - tza"

definition Day :: "int \<Rightarrow> int" where
  "Day t = t div msPerDay"

definition TimeWithinDay :: "int \<Rightarrow> int" where
  "TimeWithinDay t = t mod msPerDay"

definition MakeDate :: "int \<Rightarrow> int \<Rightarrow> int" where
  "MakeDate day time = day * msPerDay + time"

definition getHours :: "int \<Rightarrow> date \<Rightarrow> int" where
  "getHours tza t = (LocalTime tza t div msPerHour) mod 24"

text \<open>\<open>setHours(hour)\<close>: minutes, seconds and milliseconds of the local time are kept.\<close>

definition setHours1 :: "int \<Rightarrow> date \<Rightarrow> int \<Rightarrow> date" where
  "setHours1 tza t h =
     (let lt = LocalTime tza t
      in UTC tza (MakeDate (Day lt) (h * msPerHour + lt mod msPerHour)))"

text \<open>\<open>setHours(hour, min)\<close>: seconds and milliseconds of the local time are kept.\<close>

definition setHours2 :: "int \<Rightarrow> date \<Rightarrow> int \<Rightarrow> int \<Rightarrow> date" where
  "setHours2 tza t h m =
     (let lt = LocalTime tza t
      in UTC tza (MakeDate (Day lt) (h * msPerHour + m * msPerMinute + lt mod msPerMinute)))"

text \<open>\<open>setHours(0, 0, 0, 0)\<close>: the local midnight that starts the day of \<open>t\<close>.\<close>

definition startOfDay :: "int \<Rightarrow> date \<Rightarrow> date" where
  "startOfDay tza t = UTC tza (MakeDate (Day (LocalTime tza t)) 0)"


text \<open>
  The calendar of the ECMAScript \<open>Date\<close> object, for \<open>getFullYear\<close> and \<open>setFullYear\<close>:
  days are counted from 1 January 1970, months from 0.
\<close>

definition DaysInYear :: "int \<Rightarrow> int" where
  "DaysInYear y =
     (if y mod 4 \<noteq> 0 then 365 else if y mod 100 \<noteq> 0 then 366
      else if y mod 400 \<noteq> 0 then 365 else 366)"

definition DayFromYear :: "int \<Rightarrow> int" where
  "DayFromYear y =
     365 * (y - 1970) + (y - 1969) div 4 - (y - 1901) div 100 + (y - 1601) div 400"

text \<open>The year of a day number: the last year that starts on or before it.\<close>

function yearDown :: "int \<Rightarrow> int \<Rightarrow> int" where
  "yearDown d y = (if d < DayFromYear y then yearDown d (y - 1) else y)"
  by pat_completeness auto

function yearUp :: "int \<Rightarrow> int \<Rightarrow> int" where
  "yearUp d y = (if DayFromYear (y + 1) \<le> d then yearUp d (y + 1) else y)"
  by pat_completeness auto

definition YearFromTime :: "int \<Rightarrow> int" where
  "YearFromTime t = (let d = Day t in yearUp d (yearDown d (1970 + d div 365)))"

definition InLeapYear :: "int \<Rightarrow> int" where
  "InLeapYear t = (if DaysInYear (YearFromTime t) = 366 then 1 else 0)"

definition DayWithinYear :: "int \<Rightarrow> int" where
  "DayWithinYear t = Day t - DayFromYear (YearFromTime t)"

definition monthOfDay :: "int \<Rightarrow> int \<Rightarrow> int" where
  "monthOfDay leap d =
     (if d < 31 then 0 else if d < 59 + leap then 1 else if d < 90 + leap then 2
      else if d < 120 + leap then 3 else if d < 151 + leap then 4
      else if d < 181 + leap then 5 else if d < 212 + leap then 6
      else if d < 243 + leap then 7 else if d < 273 + leap then 8
      else if d < 304 + leap then 9 else if d < 334 + leap then 10 else 11)"

text \<open>The day within the year on which a month starts.\<close>

definition monthStart :: "int \<Rightarrow> int \<Rightarrow> int" where
  "monthStart leap m =
     (if m = 0 then 0 else if m = 1 then 31 else if m = 2 then 59 + leap
      else if m = 3 then 90 + leap else if m = 4 then 120 + leap
      else if m = 5 then 151 + leap else if m = 6 then 181 + leap
      else if m = 7 then 212 + leap else if m = 8 then 243 + leap
      else if m = 9 then 273 + leap else if m = 10 then 304 + leap else 334 + leap)"

definition MonthFromTime :: "int \<Rightarrow> int" where
  "MonthFromTime t = monthOfDay (InLeapYear t) (DayWithinYear t)"

definition DateFromTime :: "int \<Rightarrow> int" where
  "DateFromTime t =
     DayWithinYear t - monthStart (InLeapYear t) (MonthFromTime t) + 1"

definition MakeDay :: "int \<Rightarrow> int \<Rightarrow> int \<Rightarrow> int" where
  "MakeDay year month dt =
     (let ym = year + month div 12;
          mn = month mod 12;
          leap = (if DaysInYear ym = 366 then 1 else 0)
      in DayFromYear ym + monthStart leap mn + dt - 1)"

definition getFullYear :: "int \<Rightarrow> date \<Rightarrow> int" where
  "getFullYear tza t = YearFromTime (LocalTime tza t)"

text \<open>\<open>setFullYear(year)\<close>: month, day of the month and time of day of the local time are kept.\<close>

definition setFullYear :: "int \<Rightarrow> date \<Rightarrow> int \<Rightarrow> date" where
  "setFullYear tza t y =
     (let lt = LocalTime tza t
      in UTC tza (MakeDate (MakeDay y (MonthFromTime lt) (DateFromTime lt)) (TimeWithinDay lt)))"



section \<open>Appointment model (models/Appointment.js)\<close>

text \<open>
  A document under \<open>save\<close> comes with the state it was loaded in: \<open>None\<close> for a document
  built with \<open>new\<close> (\<open>isNew\<close>), \<open>Some orig\<close> for one read from the store, and a path is
  modified when its value differs from the loaded one.
\<close>

definition isNew :: "'d option \<Rightarrow> bool" where
  "isNew orig = (orig = None)"

definition isModified :: "('d \<Rightarrow> 'v) \<Rightarrow> 'd option \<Rightarrow> 'd \<Rightarrow> bool" where
  "isModified path orig this = (case orig of None \<Rightarrow> True | Some d \<Rightarrow> path this \<noteq> path d)"

text \<open>The virtual \<open>datetime\<close>; \<open>None\<close> is an invalid date.\<close>

definition datetime :: "int \<Rightarrow> appointment \<Rightarrow> date option" where
  "datetime tza this =
     (case str_split (CHR '':'') (a_time this) of
        hours # minutes # rest \<Rightarrow>
          (case (parseInt hours, parseInt minutes) of
             (Some h, Some m) \<Rightarrow> Some (setHours2 tza (a_date this) h m)
           | _ \<Rightarrow> None)
      | _ \<Rightarrow> None)"

text \<open>The query of the pre-save hook: another scheduled appointment in the same slot.\<close>

definition conflictingAppointment :: "appointment list \<Rightarrow> appointment \<Rightarrow> appointment option" where
  "conflictingAppointment coll this =
     find (\<lambda>a. a_doctor a = a_doctor this \<and> a_date a = a_date this \<and> a_time a = a_time this
               \<and> a_status a = ''scheduled'' \<and> a_id a \<noteq> a_id this) coll"

text \<open>An \<open>Error\<close> with its message and its \<open>status\<close> property.\<close>

datatype error = Error (err_message: string) (err_status: "nat option")

definition appointment_pre_save ::
  "appointment list \<Rightarrow> appointment option \<Rightarrow> appointment \<Rightarrow> error option" where
  "appointment_pre_save coll orig this =
     (if isNew orig \<or> isModified a_date orig this \<or> isModified a_time orig this
         \<or> isModified a_doctor orig this
      then (case conflictingAppointment coll this of
              Some c \<Rightarrow> Some (Error ''Doctor is not available at this time slot'' (Some 400))
            | None \<Rightarrow> None)
      else None)"

text \<open>
  \<open>save\<close>: the hook, then the insert of a new document or the replacement of the stored
  one. The built-in schema validators are not modelled: the documents are those that
  pass them.
\<close>

definition appointment_save :: "db \<Rightarrow> appointment option \<Rightarrow> appointment \<Rightarrow> error + db" where
  "appointment_save s orig this =
     (case appointment_pre_save (appointments s) orig this of
        Some e \<Rightarrow> Inl e
      | None \<Rightarrow>
          Inr (s\<lparr>appointments :=
                 (if isNew orig then appointments s @ [this]
                  else map (\<lambda>a. if a_id a = a_id this then this else a) (appointments s))\<rparr>))"

section \<open>Alert model (models/Alert.js)\<close>

definition alert_pre_save :: "date \<Rightarrow> alert option \<Rightarrow> alert \<Rightarrow> alert" where
  "alert_pre_save now orig this =
     (if isModified isRead orig this \<and> isRead this \<and> readAt this = None
      then this\<lparr>readAt := Some now\<rparr> else this)"

definition alert_save :: "date \<Rightarrow> db \<Rightarrow> alert option \<Rightarrow> alert \<Rightarrow> db" where
  "alert_save now s orig this =
     (let doc = alert_pre_save now orig this
      in s\<lparr>alerts :=
            (if isNew orig then alerts s @ [doc]
             else map (\<lambda>a. if al_id a = al_id doc then doc else a) (alerts s))\<rparr>)"

text \<open>
  The static \<open>createAppointmentReminder\<close>. \<open>dbOk\<close> says whether the insert reaches the
  database; when it does not, \<open>create\<close> rejects and the store is as before.
\<close>

definition createAppointmentReminder ::
  "int \<Rightarrow> date \<Rightarrow> bool \<Rightarrow> db \<Rightarrow> oid \<Rightarrow> oid \<Rightarrow> date \<Rightarrow> error + db" where
  "createAppointmentReminder tza now dbOk s appointmentId userId appointmentDate =
     (let reminderDate = setHours1 tza appointmentDate (getHours tza appointmentDate - 24)
      in if dbOk
         then Inr (alert_save now s None
                \<lparr>al_id = fresh_oid (map al_id (alerts s)),
                 al_user = userId,
                 al_type = ''appointment'',
                 al_title = ''Appointment Reminder'',
                 al_message = ''You have an appointment scheduled for tomorrow.'',
                 al_priority = ''medium'',
                 isRead = False,
                 readAt = None,
                 scheduledFor = Some reminderDate,
                 expiresAt = Some appointmentDate,
                 relatedModel = Some ''Appointment'',
                 relatedId = Some appointmentId\<rparr>)
         else Inl (Error ''alert insert failed'' None))"

section \<open>Appointment routes (routes/appointments.js)\<close>

text \<open>
  A request body after parsing: \<open>body_doctor\<close> is \<open>None\<close> when the field is not a
  Mongo id, \<open>body_date\<close> is \<open>None\<close> when it is not an ISO 8601 date and otherwise the
  time value of \<open>new Date(date)\<close>. \<open>populate\<close> only resolves the patient and doctor
  references for the response (users are deactivated, never removed), so the routes
  compare the stored ids.
\<close>

record appointment_body =
  body_doctor :: "oid option"
  body_date :: "date option"
  body_time :: string
  body_type :: string
  body_notes :: "string option"
  body_symptoms :: "string option"

definition appointment_types :: "string list" where
  "appointment_types =
     [''General Consultation'', ''Follow-up'', ''Specialist Consultation'', ''Emergency'',
      ''Routine Checkup'', ''Lab Results Review'']"

definition appointment_statuses :: "string list" where
  "appointment_statuses = [''scheduled'', ''completed'', ''cancelled'', ''no-show'']"

text \<open>\<open>optional().isLength({ max: n })\<close>.\<close>

definition optional_max :: "nat \<Rightarrow> string option \<Rightarrow> bool" where
  "optional_max n v = (case v of None \<Rightarrow> True | Some x \<Rightarrow> length x \<le> n)"

definition findById :: "('d \<Rightarrow> oid) \<Rightarrow> 'd list \<Rightarrow> oid \<Rightarrow> 'd option" where
  "findById ident coll i = find (\<lambda>d. ident d = i) coll"

text \<open>\<open>User.findOne({ _id, role: 'doctor', isActive: true })\<close>.\<close>

definition findActive :: "role \<Rightarrow> user list \<Rightarrow> oid \<Rightarrow> user option" where
  "findActive r coll i = find (\<lambda>u. u_id u = i \<and> u_role u = r \<and> isActive u) coll"

abbreviation validation_failed :: "'a response" where
  "validation_failed \<equiv> Response 400 False (Some ''Validation failed'') None"

abbreviation server_error :: "'a response" where
  "server_error \<equiv> Response 500 False (Some ''Server error'') None"

abbreviation access_denied :: "'a response" where
  "access_denied \<equiv> Response 403 False (Some ''Access denied'') None"

text \<open>The validators of the string fields of the body: time, type and notes.\<close>

definition body_fields_valid :: "appointment_body \<Rightarrow> bool" where
  "body_fields_valid b =
     (time_regex (body_time b) \<and> body_type b \<in> set appointment_types
      \<and> optional_max 500 (body_notes b))"

text \<open>
  \<open>new Appointment({ patient: req.user._id, doctor, date, time, type, notes, symptoms })\<close>:
  the status takes the schema's default.
\<close>

definition new_appointment :: "db \<Rightarrow> user \<Rightarrow> oid \<Rightarrow> date \<Rightarrow> appointment_body \<Rightarrow> appointment" where
  "new_appointment s reqUser doctor date b =
     \<lparr>a_id = fresh_oid (map a_id (appointments s)),
      a_patient = u_id reqUser,
      a_doctor = doctor,
      a_date = date,
      a_time = body_time b,
      a_type = body_type b,
      a_status = ''scheduled'',
      a_notes = body_notes b,
      a_symptoms = body_symptoms b,
      a_diagnosis = None,
      a_treatment = None\<rparr>"

text \<open>
  POST /api/appointments. \<open>tza\<close> is the server's offset from UTC, \<open>now\<close> what
  \<open>new Date()\<close> returns during the request, \<open>alertDbOk\<close> whether the insert of the
  reminder reaches the database.
\<close>

definition post_appointment ::
  "int \<Rightarrow> date \<Rightarrow> bool \<Rightarrow> db \<Rightarrow> user \<Rightarrow> appointment_body \<Rightarrow> appointment response \<times> db" where
  "post_appointment tza now alertDbOk s reqUser b =
     (case (body_doctor b, body_date b) of
        (Some doctor, Some date) \<Rightarrow>
          if \<not> body_fields_valid b then (validation_failed, s)
          else (case findActive Doctor (users s) doctor of
            None \<Rightarrow> (Response 400 False (Some ''Invalid or inactive doctor'') None, s)
          | Some doctorUser \<Rightarrow>
              if date < startOfDay tza now
              then (Response 400 False (Some ''Cannot book appointments in the past'') None, s)
              else
                (let appointment = new_appointment s reqUser doctor date b
                 in case appointment_save s None appointment of
                      Inl e \<Rightarrow>
                        if str_includes (err_message e) ''not available''
                        then (Response 400 False (Some (err_message e)) None, s)
                        else (server_error, s)
                    | Inr s1 \<Rightarrow>
                        (let s2 =
                               (case datetime tza appointment of
                                  None \<Rightarrow> s1
                                | Some dt \<Rightarrow>
                                    (case createAppointmentReminder tza now alertDbOk s1
                                            (a_id appointment) (u_id reqUser) dt of
                                       Inl alertError \<Rightarrow> s1
                                     | Inr s' \<Rightarrow> s'))
                         in (Response 201 True (Some ''Appointment booked successfully'')
                               (Some appointment), s2))))
      | _ \<Rightarrow> (validation_failed, s))"

record appointment_update =
  upd_status :: "string option"
  upd_notes :: "string option"
  upd_diagnosis :: "string option"
  upd_treatment :: "string option"
  upd_symptoms :: "string option"

definition set_if_defined ::
  "('v option \<Rightarrow> 'd \<Rightarrow> 'd) \<Rightarrow> 'v option \<Rightarrow> 'd \<Rightarrow> 'd" where
  "set_if_defined assign v d = (case v of None \<Rightarrow> d | Some x \<Rightarrow> assign (Some x) d)"

text \<open>The participants of an appointment, and admins, may read, update and cancel it.\<close>

definition appointment_access :: "user \<Rightarrow> appointment \<Rightarrow> bool" where
  "appointment_access reqUser a =
     (u_role reqUser = Admin \<or> a_patient a = u_id reqUser \<or> a_doctor a = u_id reqUser)"

text \<open>GET /api/appointments/:id.\<close>

definition get_appointment :: "db \<Rightarrow> user \<Rightarrow> oid \<Rightarrow> appointment response" where
  "get_appointment s reqUser i =
     (case findById a_id (appointments s) i of
        None \<Rightarrow> Response 404 False (Some ''Appointment not found'') None
      | Some appointment \<Rightarrow>
          if \<not> appointment_access reqUser appointment then access_denied
          else Response 200 True None (Some appointment))"

text \<open>PUT /api/appointments/:id.\<close>

definition put_appointment ::
  "db \<Rightarrow> user \<Rightarrow> oid \<Rightarrow> appointment_update \<Rightarrow> appointment response \<times> db" where
  "put_appointment s reqUser i b =
     (if \<not> ((case upd_status b of None \<Rightarrow> True | Some st \<Rightarrow> st \<in> set appointment_statuses)
            \<and> optional_max 500 (upd_notes b) \<and> optional_max 1000 (upd_diagnosis b)
            \<and> optional_max 1000 (upd_treatment b))
      then (validation_failed, s)
      else (case findById a_id (appointments s) i of
        None \<Rightarrow> (Response 404 False (Some ''Appointment not found'') None, s)
      | Some appointment \<Rightarrow>
          if \<not> appointment_access reqUser appointment then (access_denied, s)
          else (case (case upd_status b of
                        None \<Rightarrow> Inr appointment
                      | Some st \<Rightarrow>
                          if st = [] then Inr appointment
                          else if st = ''completed'' \<and> u_role reqUser = Patient
                          then Inl (Response 403 False
                                 (Some ''Patients cannot mark appointments as completed'') None)
                          else Inr (appointment\<lparr>a_status := st\<rparr>)) of
                  Inl refused \<Rightarrow> (refused, s)
                | Inr a1 \<Rightarrow>
                    (let a2 = set_if_defined (\<lambda>v d. d\<lparr>a_notes := v\<rparr>) (upd_notes b) a1;
                         a3 = set_if_defined (\<lambda>v d. d\<lparr>a_symptoms := v\<rparr>) (upd_symptoms b) a2;
                         a4 = (if u_role reqUser = Doctor \<or> u_role reqUser = Admin
                               then set_if_defined (\<lambda>v d. d\<lparr>a_treatment := v\<rparr>) (upd_treatment b)
                                      (set_if_defined (\<lambda>v d. d\<lparr>a_diagnosis := v\<rparr>)
                                         (upd_diagnosis b) a3)
                               else a3)
                     in case appointment_save s (Some appointment) a4 of
                          Inl e \<Rightarrow> (server_error, s)
                        | Inr s' \<Rightarrow>
                            (Response 200 True (Some ''Appointment updated successfully'')
                               (Some a4), s')))))"

text \<open>DELETE /api/appointments/:id: the appointment is cancelled, not removed.\<close>

definition delete_appointment :: "db \<Rightarrow> user \<Rightarrow> oid \<Rightarrow> appointment response \<times> db" where
  "delete_appointment s reqUser i =
     (case findById a_id (appointments s) i of
        None \<Rightarrow> (Response 404 False (Some ''Appointment not found'') None, s)
      | Some appointment \<Rightarrow>
          if \<not> appointment_access reqUser appointment then (access_denied, s)
          else (case appointment_save s (Some appointment)
                       (appointment\<lparr>a_status := ''cancelled''\<rparr>) of
                  Inl e \<Rightarrow> (server_error, s)
                | Inr s' \<Rightarrow>
                    (Response 200 True (Some ''Appointment cancelled successfully'') None, s')))"




section \<open>Prescription model (models/Prescription.js)\<close>

text \<open>The virtual \<open>refillsRemaining\<close>.\<close>

definition refillsRemaining :: "prescription \<Rightarrow> int" where
  "refillsRemaining this = max 0 (refillsAllowed this - refillsUsed this)"

text \<open>
  The virtual \<open>isExpired\<close> at the time \<open>now\<close>: a prescription without an expiry date is
  not expired.
\<close>

definition isExpired :: "date \<Rightarrow> prescription \<Rightarrow> bool" where
  "isExpired now this = (case expiryDate this of None \<Rightarrow> False | Some e \<Rightarrow> now > e)"

definition prescription_pre_save ::
  "int \<Rightarrow> date \<Rightarrow> prescription option \<Rightarrow> prescription \<Rightarrow> prescription" where
  "prescription_pre_save tza now orig this =
     (if isNew orig \<and> expiryDate this = None
      then this\<lparr>expiryDate := Some (setFullYear tza now (getFullYear tza now + 1))\<rparr>
      else this)"

definition prescription_save ::
  "int \<Rightarrow> date \<Rightarrow> db \<Rightarrow> prescription option \<Rightarrow> prescription \<Rightarrow> prescription \<times> db" where
  "prescription_save tza now s orig this =
     (let doc = prescription_pre_save tza now orig this
      in (doc, s\<lparr>prescriptions :=
                  (if isNew orig then prescriptions s @ [doc]
                   else map (\<lambda>p. if p_id p = p_id doc then doc else p) (prescriptions s))\<rparr>))"

section \<open>Prescription routes (routes/prescriptions.js)\<close>


definition prescription_access :: "user \<Rightarrow> prescription \<Rightarrow> bool" where
  "prescription_access reqUser p =
     (u_role reqUser = Admin \<or> p_patient p = u_id reqUser \<or> p_doctor p = u_id reqUser)"

text \<open>GET /api/prescriptions/:id.\<close>

definition get_prescription :: "db \<Rightarrow> user \<Rightarrow> oid \<Rightarrow> prescription response" where
  "get_prescription s reqUser i =
     (case findById p_id (prescriptions s) i of
        None \<Rightarrow> Response 404 False (Some ''Prescription not found'') None
      | Some prescription \<Rightarrow>
          if \<not> prescription_access reqUser prescription then access_denied
          else Response 200 True None (Some prescription))"






text \<open>POST /api/prescriptions/:id/refill.\<close>

definition refill_prescription ::
  "int \<Rightarrow> date \<Rightarrow> db \<Rightarrow> user \<Rightarrow> oid \<Rightarrow> prescription response \<times> db" where
  "refill_prescription tza now s reqUser i =
     (case findById p_id (prescriptions s) i of
        None \<Rightarrow> (Response 404 False (Some ''Prescription not found'') None, s)
      | Some prescription \<Rightarrow>
          if p_patient prescription \<noteq> u_id reqUser then (access_denied, s)
          else if p_status prescription \<noteq> ''active''
          then (Response 400 False (Some ''Prescription is not active'') None, s)
          else if isExpired now prescription
          then (Response 400 False (Some ''Prescription has expired'') None, s)
          else if refillsRemaining prescription \<le> 0
          then (Response 400 False (Some ''No refills remaining'') None, s)
          else
            (let (doc, s') = prescription_save tza now s (Some prescription)
                               (prescription\<lparr>refillsUsed := refillsUsed prescription + 1\<rparr>)
             in (Response 200 True (Some ''Prescription refill processed successfully'')
                   (Some doc), s')))"


section \<open>Health record route (routes/healthRecords.js)\<close>

text \<open>GET /api/health-records/:id: the doctor of a record is optional.\<close>

definition get_health_record :: "db \<Rightarrow> user \<Rightarrow> oid \<Rightarrow> health_record response" where
  "get_health_record s reqUser i =
     (case findById r_id (healthRecords s) i of
        None \<Rightarrow> Response 404 False (Some ''Health record not found'') None
      | Some record \<Rightarrow>
          if \<not> (u_role reqUser = Admin \<or> r_patient record = u_id reqUser
                \<or> (case r_doctor record of None \<Rightarrow> False | Some d \<Rightarrow> d = u_id reqUser))
          then access_denied
          else Response 200 True None (Some record))"

section \<open>Alert routes (routes/alerts.js)\<close>

text \<open>PUT /api/alerts/:id/read.\<close>

definition mark_alert_read :: "date \<Rightarrow> db \<Rightarrow> user \<Rightarrow> oid \<Rightarrow> alert response \<times> db" where
  "mark_alert_read now s reqUser i =
     (case findById al_id (alerts s) i of
        None \<Rightarrow> (Response 404 False (Some ''Alert not found'') None, s)
      | Some alert \<Rightarrow>
          if al_user alert \<noteq> u_id reqUser then (access_denied, s)
          else
            (let doc = alert_pre_save now (Some alert) (alert\<lparr>isRead := True\<rparr>)
             in (Response 200 True (Some ''Alert marked as read'') (Some doc),
                 alert_save now s (Some alert) (alert\<lparr>isRead := True\<rparr>))))"

text \<open>
  PUT /api/alerts/read-all: \<open>updateMany\<close> writes to every unread, unexpired alert of
  the user, without the save hook.
\<close>

definition mark_all_alerts_read :: "date \<Rightarrow> db \<Rightarrow> user \<Rightarrow> unit response \<times> db" where
  "mark_all_alerts_read now s reqUser =
     (Response 200 True (Some ''All alerts marked as read'') None,
      s\<lparr>alerts :=
          map (\<lambda>a. if al_user a = u_id reqUser \<and> \<not> isRead a
                       \<and> (case expiresAt a of None \<Rightarrow> True | Some e \<Rightarrow> e > now)
                    then a\<lparr>isRead := True, readAt := Some now\<rparr> else a)
            (alerts s)\<rparr>)"

text \<open>DELETE /api/alerts/:id: for the owner and admins; the alert is removed.\<close>

definition delete_alert :: "db \<Rightarrow> user \<Rightarrow> oid \<Rightarrow> unit response \<times> db" where
  "delete_alert s reqUser i =
     (case findById al_id (alerts s) i of
        None \<Rightarrow> (Response 404 False (Some ''Alert not found'') None, s)
      | Some alert \<Rightarrow>
          if \<not> (u_role reqUser = Admin \<or> al_user alert = u_id reqUser)
          then (access_denied, s)
          else (Response 200 True (Some ''Alert deleted successfully'') None,
                s\<lparr>alerts := filter (\<lambda>a. al_id a \<noteq> i) (alerts s)\<rparr>))"

section \<open>An example store\<close>

text \<open>One doctor, two patients and an admin, with one document in each collection.\<close>

definition example_users :: "user list" where
  "example_users =
     [\<lparr>u_id = 1, u_role = Doctor, isActive = True\<rparr>,
      \<lparr>u_id = 2, u_role = Patient, isActive = True\<rparr>,
      \<lparr>u_id = 3, u_role = Patient, isActive = True\<rparr>,
      \<lparr>u_id = 4, u_role = Admin, isActive = True\<rparr>]"

definition example_appointment :: appointment where
  "example_appointment =
     \<lparr>a_id = 1, a_patient = 2, a_doctor = 1, a_date = 1718409600000, a_time = ''09:00'',
      a_type = ''Follow-up'', a_status = ''scheduled'', a_notes = None, a_symptoms = None,
      a_diagnosis = None, a_treatment = None\<rparr>"

definition example_prescription :: prescription where
  "example_prescription =
     \<lparr>p_id = 1, p_patient = 2, p_doctor = 1, p_appointment = None,
      p_medications = [''Sumatriptan''], p_diagnosis = None, p_notes = None,
      p_status = ''active'', refillsAllowed = 2, refillsUsed = 1,
      expiryDate = Some 1750000000000, isUrgent = False\<rparr>"

definition example_alert :: alert where
  "example_alert =
     \<lparr>al_id = 1, al_user = 2, al_type = ''system'', al_title = ''Welcome'',
      al_message = ''Your account is ready.'', al_priority = ''low'', isRead = False,
      readAt = None, scheduledFor = None, expiresAt = None, relatedModel = None,
      relatedId = None\<rparr>"

definition example_db :: db where
  "example_db =
     \<lparr>users = example_users,
      appointments = [example_appointment],
      alerts = [example_alert],
      prescriptions = [example_prescription],
      healthRecords = [\<lparr>r_id = 1, r_patient = 2, r_doctor = Some 1, r_title = ''Blood test''\<rparr>]\<rparr>"

definition example_patient :: user where
  "example_patient = \<lparr>u_id = 2, u_role = Patient, isActive = True\<rparr>"

definition other_patient :: user where
  "other_patient = \<lparr>u_id = 3, u_role = Patient, isActive = True\<rparr>"

definition example_doctor :: user where
  "example_doctor = \<lparr>u_id = 1, u_role = Doctor, isActive = True\<rparr>"

definition example_admin :: user where
  "example_admin = \<lparr>u_id = 4, u_role = Admin, isActive = True\<rparr>"

definition example_body :: appointment_body where
  "example_body =
     \<lparr>body_doctor = Some 1, body_date = Some 1718409600000, body_time = ''10:00'',
      body_type = ''General Consultation'', body_notes = None, body_symptoms = None\<rparr>"


section \<open>Notions of the properties\<close>

text \<open>The slot of a doctor is taken when a scheduled appointment holds it.\<close>

definition slot_taken :: "db \<Rightarrow> oid \<Rightarrow> date \<Rightarrow> string \<Rightarrow> bool" where
  "slot_taken s doctor date time =
     (\<exists>c \<in> set (appointments s). a_doctor c = doctor \<and> a_date c = date \<and> a_time c = time
        \<and> a_status c = ''scheduled'')"

text \<open>A sequence of read-mark requests: single alerts and ``read all'', by any users.\<close>

datatype read_call = MarkRead user oid date | MarkAllRead user date

fun run_read_call :: "db \<Rightarrow> read_call \<Rightarrow> db" where
  "run_read_call s (MarkRead reqUser i now) = snd (mark_alert_read now s reqUser i)"
| "run_read_call s (MarkAllRead reqUser now) = snd (mark_all_alerts_read now s reqUser)"

definition run_read_calls :: "db \<Rightarrow> read_call list \<Rightarrow> db" where
  "run_read_calls s calls = foldl run_read_call s calls"

text \<open>An update body that carries a status and nothing else.\<close>

definition status_only :: "string \<Rightarrow> appointment_update" where
  "status_only st =
     \<lparr>upd_status = Some st, upd_notes = None, upd_diagnosis = None, upd_treatment = None,
      upd_symptoms = None\<rparr>"




text \<open>The scheduled appointments of a slot, and the stores where no slot holds two.\<close>

definition scheduled_in_slot :: "db \<Rightarrow> oid \<Rightarrow> date \<Rightarrow> string \<Rightarrow> appointment list" where
  "scheduled_in_slot s doctor date time =
     filter (\<lambda>a. a_doctor a = doctor \<and> a_date a = date \<and> a_time a = time
                 \<and> a_status a = ''scheduled'') (appointments s)"

definition no_double_booking :: "db \<Rightarrow> bool" where
  "no_double_booking s = (\<forall>doctor date time. length (scheduled_in_slot s doctor date time) \<le> 1)"

text \<open>
  Four requests on the example store, one after the other: a patient books the 10:00 slot
  of the doctor; the patient cancels that appointment; another patient books the slot, which
  is free again; the first patient sets the cancelled appointment back to scheduled. The
  run gives the status code of each answer and the store at the end.
\<close>

definition double_booking_run :: "nat list \<times> db" where
  "double_booking_run =
     (let now = 1718000000000;
          (r1, s1) = post_appointment 0 now True example_db other_patient example_body;
          (r2, s2) = delete_appointment s1 other_patient 2;
          (r3, s3) = post_appointment 0 now True s2 example_patient example_body;
          (r4, s4) = put_appointment s3 other_patient 2 (status_only ''scheduled'')
      in ([status_code r1, status_code r2, status_code r3, status_code r4], s4))"

section \<open>Day numbers of years\<close>

lemma div_succ:
  fixes x k :: int
  assumes "1 < k"
  shows "(x + 1) div k = x div k + (if x mod k = k - 1 then 1 else 0)"
proof -
  have a: "(x + 1) div k = x div k + 1 div k + (x mod k + 1 mod k) div k"
    by (rule div_add1_eq)
  have b: "1 div k = 0" "1 mod k = 1" using assms by simp_all
  have c: "0 \<le> x mod k" "x mod k < k" using assms by simp_all
  have "(x mod k + 1) div k = (if x mod k = k - 1 then 1 else 0)"
  proof (cases "x mod k = k - 1")
    case True
    then show ?thesis using assms by simp
  next
    case False
    then have "x mod k + 1 < k" using c by linarith
    then show ?thesis using c False by (simp add: div_pos_pos_trivial)
  qed
  then show ?thesis using a b by simp
qed

lemma mod_sub_mult:
  fixes y k c :: int
  shows "(y - k * c) mod k = y mod k"
  by (metis diff_zero mod_diff_right_eq mod_mult_self1_is_0)

lemma mod_pred:
  fixes y k :: int
  assumes "1 < k"
  shows "((y - 1) mod k = k - 1) = (y mod k = 0)"
proof -
  have r: "0 \<le> y mod k" "y mod k < k" using assms by simp_all
  have e: "(y - 1) mod k = (y mod k - 1) mod k" by (simp add: mod_diff_left_eq)
  show ?thesis
  proof (cases "y mod k = 0")
    case True
    then show ?thesis using e assms by (simp add: zmod_minus1)
  next
    case False
    then have "0 \<le> y mod k - 1" "y mod k - 1 < k" using r by linarith+
    then have "(y mod k - 1) mod k = y mod k - 1" by simp
    then show ?thesis using e False r by linarith
  qed
qed

lemma leap_step:
  fixes y k c :: int
  assumes "1 < k"
  shows "(y - (k * c + 1) + 1) div k = (y - (k * c + 1)) div k + (if y mod k = 0 then 1 else 0)"
proof -
  have "(y - (k * c + 1)) mod k = ((y - 1) - k * c) mod k" by (simp add: algebra_simps)
  also have "\<dots> = (y - 1) mod k" by (rule mod_sub_mult)
  finally have "((y - (k * c + 1)) mod k = k - 1) = (y mod k = 0)"
    using mod_pred [OF assms, of y] by simp
  then show ?thesis using div_succ [OF assms, of "y - (k * c + 1)"] by simp
qed

lemma leap_div4: "((y::int) - 1968) div 4 = (y - 1969) div 4 + (if y mod 4 = 0 then 1 else 0)"
  using leap_step [of 4 y 492] by simp

lemma leap_div100:
  "((y::int) - 1900) div 100 = (y - 1901) div 100 + (if y mod 100 = 0 then 1 else 0)"
  using leap_step [of 100 y 19] by simp

lemma leap_div400:
  "((y::int) - 1600) div 400 = (y - 1601) div 400 + (if y mod 400 = 0 then 1 else 0)"
  using leap_step [of 400 y 4] by simp

lemma mod100_mod4: "(y::int) mod 100 = 0 \<Longrightarrow> y mod 4 = 0"
proof -
  assume "y mod 100 = 0"
  then have "100 dvd y" by (simp add: mod_eq_0_iff_dvd)
  moreover have "(4::int) dvd 100" by simp
  ultimately have "4 dvd y" by (rule dvd_trans [rotated])
  then show "y mod 4 = 0" by (simp add: mod_eq_0_iff_dvd)
qed

lemma mod400_mod100: "(y::int) mod 400 = 0 \<Longrightarrow> y mod 100 = 0"
proof -
  assume "y mod 400 = 0"
  then have "400 dvd y" by (simp add: mod_eq_0_iff_dvd)
  moreover have "(100::int) dvd 400" by simp
  ultimately have "100 dvd y" by (rule dvd_trans [rotated])
  then show "y mod 100 = 0" by (simp add: mod_eq_0_iff_dvd)
qed

lemma leap_arith:
  fixes y q4 q100 q400 :: int
  assumes "B \<Longrightarrow> A" and "C \<Longrightarrow> B"
  shows "365 * (y - 1969) + (q4 + (if A then 1 else 0)) - (q100 + (if B then 1 else 0))
           + (q400 + (if C then 1 else 0))
         = 365 * (y - 1970) + q4 - q100 + q400
           + (if \<not> A then 365 else if \<not> B then 366 else if \<not> C then 365 else 366)"
  using assms by auto

lemma DayFromYear_Suc: "DayFromYear (y + 1) = DayFromYear y + DaysInYear y"
proof -
  have s: "y + 1 - 1970 = y - 1969" "y + 1 - 1969 = y - 1968" "y + 1 - 1901 = y - 1900"
    "y + 1 - 1601 = y - 1600" by simp_all
  have "DayFromYear (y + 1) =
          365 * (y - 1969) + (y - 1968) div 4 - (y - 1900) div 100 + (y - 1600) div 400"
    unfolding DayFromYear_def s ..
  also have "\<dots> = 365 * (y - 1969)
      + ((y - 1969) div 4 + (if y mod 4 = 0 then 1 else 0))
      - ((y - 1901) div 100 + (if y mod 100 = 0 then 1 else 0))
      + ((y - 1601) div 400 + (if y mod 400 = 0 then 1 else 0))"
    unfolding leap_div4 leap_div100 leap_div400 ..
  also have "\<dots> = 365 * (y - 1970) + (y - 1969) div 4 - (y - 1901) div 100
      + (y - 1601) div 400
      + (if \<not> y mod 4 = 0 then 365 else if \<not> y mod 100 = 0 then 366
         else if \<not> y mod 400 = 0 then 365 else 366)"
    by (rule leap_arith [where A = "y mod 4 = 0" and B = "y mod 100 = 0"
          and C = "y mod 400 = 0", OF mod100_mod4 mod400_mod100])
  finally show ?thesis
    unfolding DayFromYear_def DaysInYear_def .
qed

lemma DaysInYear_cases: "DaysInYear y = 365 \<or> DaysInYear y = 366"
  by (simp add: DaysInYear_def)

text \<open>Both searches for the year of a day end: every year has 365 or 366 days.\<close>

termination yearDown
proof (relation "measure (\<lambda>(d, y). nat (DayFromYear y - d))")
  show "wf (measure (\<lambda>(d, y). nat (DayFromYear y - d)))" by simp
next
  fix d y :: int
  assume "d < DayFromYear y"
  moreover have "DayFromYear y = DayFromYear (y - 1) + DaysInYear (y - 1)"
    using DayFromYear_Suc [of "y - 1"] by simp
  moreover have "0 < DaysInYear (y - 1)"
    using DaysInYear_cases [of "y - 1"] by auto
  ultimately show "((d, y - 1), (d, y)) \<in> measure (\<lambda>(d, y). nat (DayFromYear y - d))"
    by simp
qed

termination yearUp
proof (relation "measure (\<lambda>(d, y). nat (d + 1 - DayFromYear (y + 1)))")
  show "wf (measure (\<lambda>(d, y). nat (d + 1 - DayFromYear (y + 1))))" by simp
next
  fix d y :: int
  assume "DayFromYear (y + 1) \<le> d"
  moreover have "DayFromYear (y + 1 + 1) = DayFromYear (y + 1) + DaysInYear (y + 1)"
    by (rule DayFromYear_Suc)
  moreover have "0 < DaysInYear (y + 1)"
    using DaysInYear_cases [of "y + 1"] by auto
  ultimately show "((d, y + 1), (d, y)) \<in> measure (\<lambda>(d, y). nat (d + 1 - DayFromYear (y + 1)))"
    by simp
qed

lemmas example_defs = example_db_def example_users_def example_appointment_def
  example_prescription_def example_alert_def example_patient_def other_patient_def
  example_doctor_def example_admin_def example_body_def

section \<open>Lookups in a collection\<close>

lemma findById_Some_id: "findById ident coll i = Some d \<Longrightarrow> ident d = i"
  unfolding findById_def by (induction coll) (auto split: if_splits)

lemma findById_Some_mem: "findById ident coll i = Some d \<Longrightarrow> d \<in> set coll"
  unfolding findById_def by (induction coll) (auto split: if_splits)

lemma findById_replace_other:
  "ident d' \<noteq> j \<Longrightarrow>
   findById ident (map (\<lambda>x. if ident x = ident d' then d' else x) coll) j
     = findById ident coll j"
  unfolding findById_def by (induction coll) auto

lemma findById_replace_same:
  "findById ident coll (ident d') = Some d \<Longrightarrow>
   findById ident (map (\<lambda>x. if ident x = ident d' then d' else x) coll) (ident d') = Some d'"
  unfolding findById_def by (induction coll) (auto split: if_splits)

lemma findById_replace:
  assumes "findById ident coll i = Some d" and "ident d' = i"
  shows "findById ident (map (\<lambda>x. if ident x = ident d' then d' else x) coll) j
     = (if j = i then Some d' else findById ident coll j)"
  using assms findById_replace_other [of ident d' j coll] findById_replace_same [of ident coll d' d]
  by auto

section \<open>Days and fresh identifiers\<close>








lemma fold_max_ge: "(a::nat) \<le> fold max ids a"
  by (induction ids arbitrary: a) (auto intro: order_trans [OF max.cobounded2])

lemma fold_max_mem: "(i::nat) \<in> set ids \<Longrightarrow> i \<le> fold max ids a"
proof (induction ids arbitrary: a)
  case Nil
  then show ?case by simp
next
  case (Cons x xs)
  show ?case
  proof (cases "i = x")
    case True
    have "x \<le> max x a" by simp
    also have "\<dots> \<le> fold max xs (max x a)" by (rule fold_max_ge)
    finally show ?thesis using True by simp
  next
    case False
    then show ?thesis using Cons by simp
  qed
qed

lemma fresh_oid_gt: "i \<in> set ids \<Longrightarrow> i < fresh_oid ids"
  unfolding fresh_oid_def using fold_max_mem [of i ids 0] by simp

section \<open>Reading a single resource\<close>

text \<open>
  C7: a user who is not an admin and is neither the patient nor the doctor of an
  appointment, a health record or a prescription gets 403 ``Access denied'' with no data
  when reading it by id; when no document has the id, the answer is 404, whoever asks.
\<close>

theorem single_resource_read_access:
  assumes "u_role reqUser \<noteq> Admin"
  shows "(findById a_id (appointments s) i = None \<longrightarrow>
            get_appointment s reqUser i = Response 404 False (Some ''Appointment not found'') None)
       \<and> (\<forall>a. findById a_id (appointments s) i = Some a \<and> a_patient a \<noteq> u_id reqUser
              \<and> a_doctor a \<noteq> u_id reqUser \<longrightarrow>
            get_appointment s reqUser i = Response 403 False (Some ''Access denied'') None)
       \<and> (findById r_id (healthRecords s) i = None \<longrightarrow>
            get_health_record s reqUser i
              = Response 404 False (Some ''Health record not found'') None)
       \<and> (\<forall>r. findById r_id (healthRecords s) i = Some r \<and> r_patient r \<noteq> u_id reqUser
              \<and> r_doctor r \<noteq> Some (u_id reqUser) \<longrightarrow>
            get_health_record s reqUser i = Response 403 False (Some ''Access denied'') None)
       \<and> (findById p_id (prescriptions s) i = None \<longrightarrow>
            get_prescription s reqUser i
              = Response 404 False (Some ''Prescription not found'') None)
       \<and> (\<forall>p. findById p_id (prescriptions s) i = Some p \<and> p_patient p \<noteq> u_id reqUser
              \<and> p_doctor p \<noteq> u_id reqUser \<longrightarrow>
            get_prescription s reqUser i = Response 403 False (Some ''Access denied'') None)"
  using assms
  by (auto simp: get_appointment_def get_health_record_def get_prescription_def
        appointment_access_def prescription_access_def split: option.splits)

theorem single_resource_read_access_witness:
  "u_role other_patient \<noteq> Admin
   \<and> get_appointment example_db other_patient 1 = Response 403 False (Some ''Access denied'') None
   \<and> get_health_record example_db other_patient 1
       = Response 403 False (Some ''Access denied'') None
   \<and> get_prescription example_db other_patient 1
       = Response 403 False (Some ''Access denied'') None
   \<and> get_appointment example_db other_patient 7
       = Response 404 False (Some ''Appointment not found'') None
   \<and> get_appointment example_db example_patient 1
       = Response 200 True None (Some example_appointment)"
proof -
  have h: "u_role other_patient \<noteq> Admin" by (simp add: other_patient_def)
  note t = single_resource_read_access [OF h, of example_db]
  have "get_appointment example_db example_patient 1
       = Response 200 True None (Some example_appointment)"
    by (simp add: get_appointment_def findById_def appointment_access_def example_defs)
  then show ?thesis
    using h t [of 1] t [of 7] by (simp add: findById_def example_defs)
qed

section \<open>Refills\<close>

text \<open>
  C4: for the patient of a stored prescription with an expiry date, a refill request
  succeeds exactly when the status is active, the expiry date is not before now and
  \<open>refillsUsed < refillsAllowed\<close>; on success the stored \<open>refillsUsed\<close> is one more
  and no other prescription changes; otherwise the answer is a 400 and the store is as
  before.
\<close>

theorem refill_iff:
  assumes found: "findById p_id (prescriptions s) i = Some p"
    and own: "p_patient p = u_id reqUser"
    and expiry: "expiryDate p = Some e"
    and run: "refill_prescription tza now s reqUser i = (r, s')"
  shows "(success r \<longleftrightarrow>
            p_status p = ''active'' \<and> now \<le> e \<and> refillsUsed p < refillsAllowed p)
       \<and> (success r \<longrightarrow>
            findById p_id (prescriptions s') i = Some (p\<lparr>refillsUsed := refillsUsed p + 1\<rparr>)
            \<and> (\<forall>j. j \<noteq> i \<longrightarrow>
                  findById p_id (prescriptions s') j = findById p_id (prescriptions s) j))
       \<and> (\<not> success r \<longrightarrow> status_code r = 400 \<and> s' = s)"
proof -
  have idp: "p_id p = i" using found by (rule findById_Some_id)
  let ?ok = "p_status p = ''active'' \<and> now \<le> e \<and> refillsUsed p < refillsAllowed p"
  show ?thesis
  proof (cases ?ok)
    case True
    then have r: "r = Response 200 True (Some ''Prescription refill processed successfully'')
                    (Some (p\<lparr>refillsUsed := refillsUsed p + 1\<rparr>))"
      and s': "s' = s\<lparr>prescriptions :=
                 map (\<lambda>q. if p_id q = p_id (p\<lparr>refillsUsed := refillsUsed p + 1\<rparr>)
                          then p\<lparr>refillsUsed := refillsUsed p + 1\<rparr> else q) (prescriptions s)\<rparr>"
      using run found own expiry
      by (auto simp: refill_prescription_def isExpired_def refillsRemaining_def
            prescription_save_def prescription_pre_save_def isNew_def Let_def)
    have "findById p_id (prescriptions s') j
            = (if j = i then Some (p\<lparr>refillsUsed := refillsUsed p + 1\<rparr>)
               else findById p_id (prescriptions s) j)" for j
      unfolding s' using findById_replace [OF found, of "p\<lparr>refillsUsed := refillsUsed p + 1\<rparr>" j] idp
      by simp
    then show ?thesis using True r by simp
  next
    case False
    then have "\<not> success r \<and> status_code r = 400 \<and> s' = s"
      using run found own expiry
      by (auto simp: refill_prescription_def isExpired_def refillsRemaining_def
            split: if_splits)
    then show ?thesis using False by simp
  qed
qed

theorem refill_iff_witness:
  "success (fst (refill_prescription 0 1700000000000 example_db example_patient 1))
   \<and> findById p_id
        (prescriptions (snd (refill_prescription 0 1700000000000 example_db example_patient 1))) 1
       = Some (example_prescription\<lparr>refillsUsed := 2\<rparr>)
   \<and> refill_prescription 0 1700000000001
        (snd (refill_prescription 0 1700000000000 example_db example_patient 1)) example_patient 1
       = (Response 400 False (Some ''No refills remaining'') None,
          snd (refill_prescription 0 1700000000000 example_db example_patient 1))"
proof -
  let ?run = "refill_prescription 0 1700000000000 example_db example_patient 1"
  have found: "findById p_id (prescriptions example_db) 1 = Some example_prescription"
    by (simp add: findById_def example_defs)
  have own: "p_patient example_prescription = u_id example_patient"
    by (simp add: example_defs)
  have expiry: "expiryDate example_prescription = Some 1750000000000"
    by (simp add: example_defs)
  have run: "?run = (fst ?run, snd ?run)" by simp
  note t = refill_iff [OF found own expiry run]
  have first: "success (fst ?run)
      \<and> findById p_id (prescriptions (snd ?run)) 1 = Some (example_prescription\<lparr>refillsUsed := 2\<rparr>)"
    using t by (simp add: example_defs)
  have again: "snd ?run = example_db\<lparr>prescriptions := [example_prescription\<lparr>refillsUsed := 2\<rparr>]\<rparr>"
    by (simp add: refill_prescription_def findById_def isExpired_def refillsRemaining_def
          prescription_save_def prescription_pre_save_def isNew_def Let_def example_defs)
  have "refill_prescription 0 1700000000001 (snd ?run) example_patient 1
       = (Response 400 False (Some ''No refills remaining'') None, snd ?run)"
    unfolding again
    by (simp add: refill_prescription_def findById_def isExpired_def refillsRemaining_def
          example_defs)
  then show ?thesis using first by simp
qed

section \<open>Availability\<close>



section \<open>Booking\<close>

lemma conflicting_None_iff:
  "conflictingAppointment coll this = None \<longleftrightarrow>
     \<not> (\<exists>a \<in> set coll. a_doctor a = a_doctor this \<and> a_date a = a_date this
            \<and> a_time a = a_time this \<and> a_status a = ''scheduled'' \<and> a_id a \<noteq> a_id this)"
  unfolding conflictingAppointment_def by (auto simp: find_None_iff)

lemma appointment_save_Inl:
  "appointment_save s orig this = Inl e \<Longrightarrow>
     e = Error ''Doctor is not available at this time slot'' (Some 400)"
  by (auto simp: appointment_save_def appointment_pre_save_def split: option.splits if_splits)

lemma not_available: "str_includes ''Doctor is not available at this time slot'' ''not available''"
  by simp

lemma new_appointment_conflict:
  "conflictingAppointment (appointments s) (new_appointment s reqUser doctor date b) = None
     \<longleftrightarrow> \<not> slot_taken s doctor date (body_time b)"
proof -
  have "a_id c \<noteq> fresh_oid (map a_id (appointments s))" if "c \<in> set (appointments s)" for c
    using fresh_oid_gt [of "a_id c" "map a_id (appointments s)"] that by auto
  then show ?thesis
    unfolding conflicting_None_iff slot_taken_def new_appointment_def by auto
qed

lemma post_appointment_invalid:
  assumes "\<not> (body_doctor b \<noteq> None \<and> body_date b \<noteq> None \<and> body_fields_valid b)"
  shows "post_appointment tza now ok s reqUser b = (validation_failed, s)"
  using assms by (auto simp: post_appointment_def split: option.splits)

lemma post_appointment_no_doctor:
  assumes "body_doctor b = Some doctor" "body_date b = Some date" "body_fields_valid b"
    "findActive Doctor (users s) doctor = None"
  shows "post_appointment tza now ok s reqUser b
           = (Response 400 False (Some ''Invalid or inactive doctor'') None, s)"
  using assms by (simp add: post_appointment_def)

lemma post_appointment_past:
  assumes "body_doctor b = Some doctor" "body_date b = Some date" "body_fields_valid b"
    "findActive Doctor (users s) doctor = Some du" "date < startOfDay tza now"
  shows "post_appointment tza now ok s reqUser b
           = (Response 400 False (Some ''Cannot book appointments in the past'') None, s)"
  using assms by (simp add: post_appointment_def)

lemma post_appointment_conflict:
  assumes "body_doctor b = Some doctor" "body_date b = Some date" "body_fields_valid b"
    "findActive Doctor (users s) doctor = Some du" "\<not> date < startOfDay tza now"
    "slot_taken s doctor date (body_time b)"
  shows "post_appointment tza now ok s reqUser b
           = (Response 400 False (Some ''Doctor is not available at this time slot'') None, s)"
proof -
  have "conflictingAppointment (appointments s) (new_appointment s reqUser doctor date b) \<noteq> None"
    using assms(6) by (simp add: new_appointment_conflict)
  then obtain c where
    "conflictingAppointment (appointments s) (new_appointment s reqUser doctor date b) = Some c"
    by auto
  then have "appointment_save s None (new_appointment s reqUser doctor date b)
      = Inl (Error ''Doctor is not available at this time slot'' (Some 400))"
    by (simp add: appointment_save_def appointment_pre_save_def isNew_def)
  then show ?thesis
    using assms(1-5) by (simp add: post_appointment_def)
qed

lemma post_appointment_booked:
  assumes "body_doctor b = Some doctor" "body_date b = Some date" "body_fields_valid b"
    "findActive Doctor (users s) doctor = Some du" "\<not> date < startOfDay tza now"
    "\<not> slot_taken s doctor date (body_time b)"
  shows "post_appointment tza now ok s reqUser b
           = (Response 201 True (Some ''Appointment booked successfully'')
                (Some (new_appointment s reqUser doctor date b)),
              (let s1 = s\<lparr>appointments := appointments s @ [new_appointment s reqUser doctor date b]\<rparr>
               in case datetime tza (new_appointment s reqUser doctor date b) of
                    None \<Rightarrow> s1
                  | Some dt \<Rightarrow>
                      (case createAppointmentReminder tza now ok s1
                              (a_id (new_appointment s reqUser doctor date b)) (u_id reqUser) dt of
                         Inl alertError \<Rightarrow> s1
                       | Inr s' \<Rightarrow> s')))"
proof -
  have "conflictingAppointment (appointments s) (new_appointment s reqUser doctor date b) = None"
    using assms(6) by (simp add: new_appointment_conflict)
  then have "appointment_save s None (new_appointment s reqUser doctor date b)
      = Inr (s\<lparr>appointments := appointments s @ [new_appointment s reqUser doctor date b]\<rparr>)"
    by (simp add: appointment_save_def appointment_pre_save_def isNew_def)
  then show ?thesis
    using assms(1-5) by (simp add: post_appointment_def Let_def)
qed

lemma post_appointment_cases:
  assumes "body_date b = Some date"
  obtains
    (invalid) "body_doctor b = None \<or> \<not> body_fields_valid b"
      "post_appointment tza now ok s reqUser b = (validation_failed, s)"
  | (no_doctor) doctor where "body_doctor b = Some doctor" "body_fields_valid b"
      "findActive Doctor (users s) doctor = None"
      "post_appointment tza now ok s reqUser b
           = (Response 400 False (Some ''Invalid or inactive doctor'') None, s)"
  | (past) doctor du where "body_doctor b = Some doctor" "body_fields_valid b"
      "findActive Doctor (users s) doctor = Some du" "date < startOfDay tza now"
      "post_appointment tza now ok s reqUser b
           = (Response 400 False (Some ''Cannot book appointments in the past'') None, s)"
  | (conflict) doctor du where "body_doctor b = Some doctor" "body_fields_valid b"
      "findActive Doctor (users s) doctor = Some du" "\<not> date < startOfDay tza now"
      "slot_taken s doctor date (body_time b)"
      "post_appointment tza now ok s reqUser b
           = (Response 400 False (Some ''Doctor is not available at this time slot'') None, s)"
  | (booked) doctor du where "body_doctor b = Some doctor" "body_fields_valid b"
      "findActive Doctor (users s) doctor = Some du" "\<not> date < startOfDay tza now"
      "\<not> slot_taken s doctor date (body_time b)"
      "fst (post_appointment tza now ok s reqUser b)
           = Response 201 True (Some ''Appointment booked successfully'')
                (Some (new_appointment s reqUser doctor date b))"
proof (cases "body_doctor b")
  case None
  then show ?thesis using invalid post_appointment_invalid [of b] by simp
next
  case (Some doctor)
  show ?thesis
  proof (cases "body_fields_valid b")
    case False
    then show ?thesis
      using invalid post_appointment_invalid [of b] by simp
  next
    case True
    note v = True
    show ?thesis
    proof (cases "findActive Doctor (users s) doctor")
      case None
      then show ?thesis
        using no_doctor [OF Some True] post_appointment_no_doctor [OF Some assms v] by simp
    next
      case du: (Some du)
      show ?thesis
      proof (cases "date < startOfDay tza now")
        case past': True
        show ?thesis
          using past [OF Some True du past'] post_appointment_past [OF Some assms v du past']
          by simp
      next
        case False
        show ?thesis
        proof (cases "slot_taken s doctor date (body_time b)")
          case taken: True
          show ?thesis
            using conflict [OF Some True du False taken]
              post_appointment_conflict [OF Some assms v du False taken] by simp
        next
          case free: False
          show ?thesis
            using booked [OF Some True du False free]
              post_appointment_booked [OF Some assms v du False free] by simp
        qed
      qed
    qed
  qed
qed







section \<open>Reading alerts\<close>

lemma findById_map:
  assumes "\<And>x. ident (f x) = ident x"
  shows "findById ident (map f coll) i = map_option f (findById ident coll i)"
  unfolding findById_def using assms by (induction coll) auto

lemma alert_pre_save_read:
  "isRead a \<Longrightarrow> alert_pre_save now (Some a) (a\<lparr>isRead := True\<rparr>) = a"
  by (simp add: alert_pre_save_def isModified_def)

lemma alert_pre_save_unread:
  "\<not> isRead a \<Longrightarrow> readAt a = None \<Longrightarrow>
     alert_pre_save now (Some a) (a\<lparr>isRead := True\<rparr>) = a\<lparr>isRead := True, readAt := Some now\<rparr>"
  by (simp add: alert_pre_save_def isModified_def)

lemma mark_alert_read_first:
  assumes "findById al_id (alerts s) i = Some a" "al_user a = u_id reqUser"
    "\<not> isRead a" "readAt a = None"
  shows "mark_alert_read now s reqUser i
           = (Response 200 True (Some ''Alert marked as read'')
                (Some (a\<lparr>isRead := True, readAt := Some now\<rparr>)),
              s\<lparr>alerts := map (\<lambda>x. if al_id x = al_id a
                                     then a\<lparr>isRead := True, readAt := Some now\<rparr> else x)
                              (alerts s)\<rparr>)"
  using assms
  by (simp add: mark_alert_read_def alert_save_def Let_def isNew_def alert_pre_save_unread)

lemma read_call_keeps_read:
  assumes "findById al_id (alerts s) i = Some a" "isRead a"
  shows "findById al_id (alerts (run_read_call s c)) i = Some a"
proof (cases c)
  case (MarkRead reqUser j now)
  show ?thesis
  proof (cases "findById al_id (alerts s) j")
    case None
    then show ?thesis using assms MarkRead by (simp add: mark_alert_read_def)
  next
    case (Some x)
    have idx: "al_id x = j" using Some by (rule findById_Some_id)
    show ?thesis
    proof (cases "al_user x = u_id reqUser")
      case False
      then show ?thesis using assms MarkRead Some by (simp add: mark_alert_read_def)
    next
      case True
      let ?doc = "alert_pre_save now (Some x) (x\<lparr>isRead := True\<rparr>)"
      have iddoc: "al_id ?doc = j" using idx by (simp add: alert_pre_save_def)
      have s': "alerts (run_read_call s c)
                  = map (\<lambda>y. if al_id y = al_id ?doc then ?doc else y) (alerts s)"
        using MarkRead Some True
        by (simp add: mark_alert_read_def alert_save_def Let_def isNew_def)
      show ?thesis
      proof (cases "j = i")
        case False
        then show ?thesis
          unfolding s' using findById_replace [OF Some iddoc, of i] assms by simp
      next
        case same: True
        then have "x = a" using Some assms by simp
        then have "?doc = a" using assms(2) by (simp add: alert_pre_save_read)
        then show ?thesis
          unfolding s' using findById_replace [OF Some iddoc, of i] same by simp
      qed
    qed
  qed
next
  case (MarkAllRead reqUser now)
  let ?f = "\<lambda>a. if al_user a = u_id reqUser \<and> \<not> isRead a
                       \<and> (case expiresAt a of None \<Rightarrow> True | Some e \<Rightarrow> e > now)
                    then a\<lparr>isRead := True, readAt := Some now\<rparr> else a"
  have "findById al_id (map ?f (alerts s)) i = map_option ?f (findById al_id (alerts s) i)"
    by (rule findById_map) simp
  then show ?thesis
    using assms MarkAllRead by (simp add: mark_all_alerts_read_def)
qed

lemma read_calls_keep_read:
  assumes "findById al_id (alerts s) i = Some a" "isRead a"
  shows "findById al_id (alerts (run_read_calls s calls)) i = Some a"
  using assms unfolding run_read_calls_def
proof (induction calls arbitrary: s)
  case Nil
  then show ?case by simp
next
  case (Cons c calls)
  have "findById al_id (alerts (run_read_call s c)) i = Some a"
    using Cons.prems by (rule read_call_keeps_read)
  then show ?case using Cons.IH Cons.prems(2) by simp
qed

text \<open>
  C5: the first read-mark request of its owner on an unread alert stores \<open>isRead\<close>
  and a \<open>readAt\<close> equal to the time of that request; whatever read-mark requests follow,
  of single alerts or of all, by anyone and at any time, the stored alert stays exactly
  that, so \<open>readAt\<close> is never assigned again. On a read alert the save hook changes
  nothing.
\<close>

theorem readAt_set_once:
  assumes found: "findById al_id (alerts s) i = Some a" and own: "al_user a = u_id reqUser"
    and unread: "\<not> isRead a" "readAt a = None"
  shows "findById al_id (alerts (snd (mark_alert_read t1 s reqUser i))) i
           = Some (a\<lparr>isRead := True, readAt := Some t1\<rparr>)
       \<and> (\<forall>calls. findById al_id
              (alerts (run_read_calls (snd (mark_alert_read t1 s reqUser i)) calls)) i
           = Some (a\<lparr>isRead := True, readAt := Some t1\<rparr>))
       \<and> (\<forall>a' now. isRead a' \<longrightarrow> alert_pre_save now (Some a') (a'\<lparr>isRead := True\<rparr>) = a')"
proof -
  let ?a1 = "a\<lparr>isRead := True, readAt := Some t1\<rparr>"
  have ida: "al_id a = i" using found by (rule findById_Some_id)
  have first: "findById al_id (alerts (snd (mark_alert_read t1 s reqUser i))) i = Some ?a1"
    unfolding mark_alert_read_first [OF found own unread]
    using findById_replace [OF found, of ?a1 i] ida by simp
  moreover have "isRead ?a1" by simp
  ultimately have "findById al_id
      (alerts (run_read_calls (snd (mark_alert_read t1 s reqUser i)) calls)) i = Some ?a1" for calls
    by (rule read_calls_keep_read)
  then show ?thesis using first alert_pre_save_read by blast
qed

theorem readAt_set_once_witness:
  "findById al_id (alerts example_db) 1 = Some example_alert
   \<and> findById al_id
        (alerts (run_read_calls (snd (mark_alert_read 1700000000000 example_db example_patient 1))
           [MarkRead example_patient 1 1700000005000, MarkAllRead example_patient 1700000009000,
            MarkRead example_admin 1 1700000010000])) 1
       = Some (example_alert\<lparr>isRead := True, readAt := Some 1700000000000\<rparr>)"
proof -
  have found: "findById al_id (alerts example_db) 1 = Some example_alert"
    by (simp add: findById_def example_defs)
  have own: "al_user example_alert = u_id example_patient"
    and unread: "\<not> isRead example_alert" "readAt example_alert = None"
    by (simp_all add: example_defs)
  show ?thesis
    using readAt_set_once [OF found own unread, of 1700000000000] found by simp
qed

section \<open>Status changes\<close>

lemma appointment_save_unmoved:
  assumes "a_date this = a_date orig" "a_time this = a_time orig" "a_doctor this = a_doctor orig"
  shows "appointment_save s (Some orig) this
           = Inr (s\<lparr>appointments := map (\<lambda>a. if a_id a = a_id this then this else a)
                                       (appointments s)\<rparr>)"
  using assms
  by (simp add: appointment_save_def appointment_pre_save_def isNew_def isModified_def)







section \<open>The reminder alert\<close>


















section \<open>The calendar\<close>




















section \<open>The expiry date of a prescription\<close>





text \<open>A prescription written on 29 February 2024 expires on 1 March 2025.\<close>

lemma leap_day_expiry:
  "setFullYear 0 1709164800000 (getFullYear 0 1709164800000 + 1) = 1740787200000"
  by code_simp



section \<open>Double booking\<close>

lemma post_appointment_appointments:
  "appointments (snd (post_appointment tza now ok s reqUser b)) = appointments s
   \<or> (\<exists>doctor date. \<not> slot_taken s doctor date (body_time b)
         \<and> appointments (snd (post_appointment tza now ok s reqUser b))
             = appointments s @ [new_appointment s reqUser doctor date b])"
proof (cases "body_date b")
  case None
  then show ?thesis using post_appointment_invalid [of b] by simp
next
  case (Some date)
  then show ?thesis
  proof (cases rule: post_appointment_cases [where tza = tza and now = now and ok = ok
        and s = s and reqUser = reqUser])
    case (booked doctor du)
    have "appointments (snd (post_appointment tza now ok s reqUser b))
            = appointments s @ [new_appointment s reqUser doctor date b]"
      unfolding post_appointment_booked [OF booked(1) Some booked(2,3,4,5)]
      by (cases ok)
        (auto simp: Let_def createAppointmentReminder_def alert_save_def
           split: option.splits sum.splits)
    then show ?thesis using booked(5) by blast
  qed simp_all
qed

lemma booking_keeps_no_double_booking:
  assumes "no_double_booking s"
  shows "no_double_booking (snd (post_appointment tza now ok s reqUser b))"
proof -
  from post_appointment_appointments [of tza now ok s reqUser b]
  show ?thesis
  proof
    assume "appointments (snd (post_appointment tza now ok s reqUser b)) = appointments s"
    then show ?thesis using assms by (simp add: no_double_booking_def scheduled_in_slot_def)
  next
    assume "\<exists>doctor date. \<not> slot_taken s doctor date (body_time b)
         \<and> appointments (snd (post_appointment tza now ok s reqUser b))
             = appointments s @ [new_appointment s reqUser doctor date b]"
    then obtain doctor date where free: "\<not> slot_taken s doctor date (body_time b)"
      and apps: "appointments (snd (post_appointment tza now ok s reqUser b))
             = appointments s @ [new_appointment s reqUser doctor date b]" by blast
    have "length (scheduled_in_slot (snd (post_appointment tza now ok s reqUser b)) d dt t) \<le> 1"
      for d dt t
    proof (cases "d = doctor \<and> dt = date \<and> t = body_time b")
      case True
      have "scheduled_in_slot s doctor date (body_time b) = []"
        using free by (auto simp: slot_taken_def scheduled_in_slot_def filter_empty_conv)
      then show ?thesis
        using True apps by (simp add: scheduled_in_slot_def new_appointment_def)
    next
      case False
      then have "scheduled_in_slot (snd (post_appointment tza now ok s reqUser b)) d dt t
                   = scheduled_in_slot s d dt t"
        using apps by (auto simp: scheduled_in_slot_def new_appointment_def)
      then show ?thesis using assms by (simp add: no_double_booking_def)
    qed
    then show ?thesis by (simp add: no_double_booking_def)
  qed
qed

lemma filter_map_le:
  assumes "\<And>x. P (f x) \<Longrightarrow> P x"
  shows "length (filter P (map f xs)) \<le> length (filter P xs)"
  using assms by (induction xs) auto

lemma cancelling_keeps_no_double_booking:
  assumes "no_double_booking s"
  shows "no_double_booking (snd (delete_appointment s reqUser i))"
proof -
  have "length (scheduled_in_slot (snd (delete_appointment s reqUser i)) d dt t)
          \<le> length (scheduled_in_slot s d dt t)" for d dt t
  proof (cases "findById a_id (appointments s) i")
    case None
    then show ?thesis by (simp add: delete_appointment_def)
  next
    case (Some a)
    show ?thesis
    proof (cases "appointment_access reqUser a")
      case False
      then show ?thesis using Some by (simp add: delete_appointment_def)
    next
      case True
      have eq: "appointments (snd (delete_appointment s reqUser i))
              = map (\<lambda>x. if a_id x = a_id a then a\<lparr>a_status := ''cancelled''\<rparr> else x)
                  (appointments s)"
        using Some True appointment_save_unmoved [of "a\<lparr>a_status := ''cancelled''\<rparr>" a s]
        by (simp add: delete_appointment_def)
      show ?thesis
        unfolding scheduled_in_slot_def eq by (rule filter_map_le) (simp split: if_splits)
    qed
  qed
  then show ?thesis
    using assms unfolding no_double_booking_def by (meson order_trans)
qed

lemma example_db_no_double_booking: "no_double_booking example_db"
  by (simp add: no_double_booking_def scheduled_in_slot_def example_db_def)

text \<open>
  C1 fails on the code: bookings and cancellations keep every slot at one scheduled
  appointment at most (the two lemmas above), but the update route saves a status change
  without the conflict check, since date, time and doctor are not modified. The four
  requests are all accepted, and the store ends with two scheduled appointments of the same
  doctor, date and time.
\<close>

theorem double_booking_by_reschedule:
  "no_double_booking example_db
   \<and> fst double_booking_run = [201, 200, 201, 200]
   \<and> map (\<lambda>a. (a_id a, a_patient a, a_status a))
        (scheduled_in_slot (snd double_booking_run) 1 1718409600000 ''10:00'')
       = [(2, 3, ''scheduled''), (3, 2, ''scheduled'')]
   \<and> \<not> no_double_booking (snd double_booking_run)"
proof -
  have codes: "fst double_booking_run = [201, 200, 201, 200]"
    by code_simp
  have two: "map (\<lambda>a. (a_id a, a_patient a, a_status a))
        (scheduled_in_slot (snd double_booking_run) 1 1718409600000 ''10:00'')
       = [(2, 3, ''scheduled''), (3, 2, ''scheduled'')]"
    by code_simp
  have "\<not> no_double_booking (snd double_booking_run)"
  proof
    assume "no_double_booking (snd double_booking_run)"
    then have "length (scheduled_in_slot (snd double_booking_run) 1 1718409600000 ''10:00'') \<le> 1"
      by (simp add: no_double_booking_def)
    moreover have "length (map (\<lambda>a. (a_id a, a_patient a, a_status a))
        (scheduled_in_slot (snd double_booking_run) 1 1718409600000 ''10:00'')) = 2"
      unfolding two by simp
    ultimately show False by simp
  qed
  then show ?thesis
    using example_db_no_double_booking codes two by simp
qed

end
